theory Spec2Isabelle
  imports Complex_Main "HOL-Library.Multiset"
begin

section \<open>JavaScript values as the handlers see them\<close>

text \<open>
  The server (\<^verbatim>\<open>src/unnamed/part_000\<close>) reads JSON request bodies through
  \<^verbatim>\<open>express.json()\<close> and answers with \<^verbatim>\<open>res.status(..).json(..)\<close>.
  A number is \<open>NaN\<close>, an infinity or a finite 64-bit float, kept as the rational it is
  (the sign of zero is not represented); every number computed from a string is rounded to
  a float by \<open>to_double\<close> below. A string is a list of 8-bit characters. An object is what
  \<^verbatim>\<open>JSON.parse\<close> builds, as the list of its own properties; none of them is a function.
\<close>

datatype jsnum = NaN | Finite rat | PosInf | NegInf

datatype jsval =
    JUndefined
  | JNull
  | JBool bool
  | JNum jsnum
  | JStr string
  | JArr "jsval list"
  | JObj "(string \<times> jsval) list"

text \<open>What a rejected promise or a \<^verbatim>\<open>throw\<close> carries.\<close>

datatype js_error = TypeError string | Error string

text \<open>\<^verbatim>\<open>!v\<close> is true exactly for the falsy values.\<close>

fun truthy :: "jsval \<Rightarrow> bool" where
  "truthy JUndefined = False"
| "truthy JNull = False"
| "truthy (JBool b) = b"
| "truthy (JNum NaN) = False"
| "truthy (JNum (Finite r)) = (r \<noteq> 0)"
| "truthy (JNum PosInf) = True"
| "truthy (JNum NegInf) = True"
| "truthy (JStr s) = (s \<noteq> [])"
| "truthy (JArr xs) = True"
| "truthy (JObj kvs) = True"

text \<open>
  \<^verbatim>\<open>v.k\<close> for the property names the handlers read (none of them is a built-in
  property of a string, array, number or boolean). Reading a property of \<^verbatim>\<open>undefined\<close>
  or \<^verbatim>\<open>null\<close> throws a \<^verbatim>\<open>TypeError\<close>, so every read is guarded by \<open>nullish\<close>;
  on any other value \<open>prop_of\<close> is the stored value when the value is an object that has
  the key, \<^verbatim>\<open>undefined\<close> otherwise.
\<close>

definition nullish :: "jsval \<Rightarrow> bool" where
  "nullish v = (v = JUndefined \<or> v = JNull)"

fun prop_of :: "jsval \<Rightarrow> string \<Rightarrow> jsval" where
  "prop_of (JObj kvs) k = (case map_of kvs k of None \<Rightarrow> JUndefined | Some v \<Rightarrow> v)"
| "prop_of v k = JUndefined"

text \<open>\<^verbatim>\<open>error.message\<close>.\<close>

fun error_message :: "js_error \<Rightarrow> string" where
  "error_message (TypeError m) = m"
| "error_message (Error m) = m"


text \<open>
  Converting a value to a string or to a number (a template literal, \<^verbatim>\<open>parseFloat\<close>,
  \<^verbatim>\<open>Math.round\<close>) throws a \<^verbatim>\<open>TypeError\<close> exactly in this case: an object with a
  property of its own named \<^verbatim>\<open>toString\<close> (it hides the inherited method and is not
  callable, and the inherited \<^verbatim>\<open>valueOf\<close> returns the object), or an array that holds
  such a value (\<^verbatim>\<open>join\<close> converts every element but \<^verbatim>\<open>null\<close> and
  \<^verbatim>\<open>undefined\<close>).
\<close>

fun conversion_throws :: "jsval \<Rightarrow> bool" where
  "conversion_throws (JObj kvs) = (map_of kvs ''toString'' \<noteq> None)"
| "conversion_throws (JArr xs) = list_ex conversion_throws xs"
| "conversion_throws v = False"

definition conversion_error :: js_error where
  "conversion_error = TypeError ''Cannot convert object to primitive value''"

section \<open>Responses and the calls a handler makes\<close>

text \<open>
  A response body is built from values, nested object literals and template literals. A
  template literal whose parts all convert is kept as the list of its parts (the string is
  the concatenation of their string conversions); \<open>template\<close> throws when a part does not
  convert.
\<close>

datatype jout =
    OVal jsval
  | OTemplate "jsval list"
  | OObj "(string \<times> jout) list"
  | OArr "jout list"

definition template :: "jsval list \<Rightarrow> js_error + jout" where
  "template parts = (if list_ex conversion_throws parts then Inl conversion_error else Inr (OTemplate parts))"

record response =
  status_code :: nat
  body :: jout

text \<open>\<^verbatim>\<open>res.json(b)\<close> answers 200; \<^verbatim>\<open>res.status(c).json(b)\<close> answers \<open>c\<close>.\<close>

definition res_json :: "jout \<Rightarrow> response" where
  "res_json b = \<lparr>status_code = 200, body = b\<rparr>"

definition res_status_json :: "nat \<Rightarrow> jout \<Rightarrow> response" where
  "res_status_json c b = \<lparr>status_code = c, body = b\<rparr>"

text \<open>The field of a response body, when the body is an object that has it.\<close>

fun field :: "jout \<Rightarrow> string \<Rightarrow> jout option" where
  "field (OObj kvs) k = map_of kvs k"
| "field b k = None"

text \<open>
  The calls to the outside (the payment gateway, the order service, the connection pool), in
  the order a handler makes them, each with the arguments the claims read.
\<close>

datatype call =
    StripeCreate jsnum jsval
  | StripeRetrieve jsval
  | StripeList
  | PoolQuery string
  | CreateOrder jsval jsval jsval jsnum
  | GetRecentOrders jsnum
  | UpdateOrderStatus string jsval

section \<open>Rounding to a 64-bit float\<close>

text \<open>
  Round to nearest, ties to even, on the binary64 grid: 53 significant bits, exponents from
  -1022 (below it the spacing stays \<open>2\<^sup>-\<^sup>1\<^sup>0\<^sup>7\<^sup>4\<close>, so tiny values go to 0) to 1023 (a result
  of \<open>2\<^sup>1\<^sup>0\<^sup>2\<^sup>4\<close> or more is an infinity).
\<close>

definition round_half_even :: "rat \<Rightarrow> int" where
  "round_half_even r =
     (let f = \<lfloor>r\<rfloor>; d = r - of_int f
      in if d < 1 / 2 then f else if 1 / 2 < d then f + 1 else if even f then f else f + 1)"

text \<open>How often \<open>x \<ge> 1\<close> is halved before it is below 2, at most \<open>k\<close> times.\<close>

function halvings :: "nat \<Rightarrow> rat \<Rightarrow> nat" where
  "halvings k x = (if k = 0 \<or> x < 2 then 0 else Suc (halvings (k - 1) (x / 2)))"
  by pat_completeness auto
termination
  by (relation "measure fst") auto

declare halvings.simps [simp del]

text \<open>How often \<open>x < 1\<close> is doubled before it is at least 1, at most \<open>k\<close> times.\<close>

function doublings :: "nat \<Rightarrow> rat \<Rightarrow> nat" where
  "doublings k x = (if k = 0 \<or> 1 \<le> x then 0 else Suc (doublings (k - 1) (2 * x)))"
  by pat_completeness auto
termination
  by (relation "measure fst") auto

declare doublings.simps [simp del]

text \<open>The binary exponent of \<open>x > 0\<close>, kept within -1022 and 1024.\<close>

definition binary_exponent :: "rat \<Rightarrow> int" where
  "binary_exponent x = (if 1 \<le> x then int (halvings 1024 x) else - int (doublings 1022 x))"

definition scale2 :: "rat \<Rightarrow> int \<Rightarrow> rat" where
  "scale2 m e = (if 0 \<le> e then m * 2 ^ nat e else m / 2 ^ nat (- e))"

definition round_positive :: "rat \<Rightarrow> jsnum" where
  "round_positive x =
     (let q = scale2 1 (binary_exponent x - 52);
          y = of_int (round_half_even (x / q)) * q
      in if 2 ^ 1024 \<le> y then PosInf else Finite y)"

definition to_double :: "rat \<Rightarrow> jsnum" where
  "to_double x =
     (if x = 0 then Finite 0
      else if 0 < x then round_positive x
      else (case round_positive (- x) of
              Finite y \<Rightarrow> Finite (- y)
            | PosInf \<Rightarrow> NegInf
            | other \<Rightarrow> other))"

section \<open>Numbers from strings\<close>

text \<open>
  \<^verbatim>\<open>parseFloat(string)\<close> (ECMAScript 19.2.4): leading white space is dropped, then the
  longest prefix that is a \<^verbatim>\<open>StrDecimalLiteral\<close> is read: an optional sign, then
  \<^verbatim>\<open>Infinity\<close> or digits with an optional fraction and an optional exponent. No such
  prefix gives \<open>NaN\<close>.
\<close>

definition is_space :: "char \<Rightarrow> bool" where
  "is_space c = (of_char c \<in> {9, 10, 11, 12, 13, 32, 160 :: nat})"

definition is_digit :: "char \<Rightarrow> bool" where
  "is_digit c = (c \<in> set ''0123456789'')"

definition digit_val :: "char \<Rightarrow> int" where
  "digit_val c = of_char c - 48"

definition digits_val :: "string \<Rightarrow> int" where
  "digits_val ds = foldl (\<lambda>a c. 10 * a + digit_val c) 0 ds"

definition scale10 :: "rat \<Rightarrow> int \<Rightarrow> rat" where
  "scale10 m e = (if 0 \<le> e then m * 10 ^ nat e else m / 10 ^ nat (- e))"

text \<open>\<^verbatim>\<open>SignedInteger\<close>: an optional sign and at least one digit; its value and the rest.\<close>

fun signed_integer :: "string \<Rightarrow> (int \<times> string) option" where
  "signed_integer (c # r) =
     (let signed = (c = CHR ''+'' \<or> c = CHR ''-'');
          ds = takeWhile is_digit (if signed then r else c # r);
          rest = dropWhile is_digit (if signed then r else c # r)
      in if ds = [] then None
         else Some (if c = CHR ''-'' then - digits_val ds else digits_val ds, rest))"
| "signed_integer [] = None"

text \<open>
  \<^verbatim>\<open>ExponentPart\<close> at the head of a string: its value and the rest, and 0 with the whole
  string when it does not start with a well-formed exponent (the literal ends before it).
\<close>

fun exponent_part :: "string \<Rightarrow> int \<times> string" where
  "exponent_part (c # r) =
     (if c = CHR ''e'' \<or> c = CHR ''E''
      then (case signed_integer r of Some (e, rest) \<Rightarrow> (e, rest) | None \<Rightarrow> (0, c # r))
      else (0, c # r))"
| "exponent_part [] = (0, [])"

text \<open>
  The longest \<^verbatim>\<open>StrUnsignedDecimalLiteral\<close> other than \<^verbatim>\<open>Infinity\<close> at the head of a
  string: integer digits \<open>ip\<close>, an optional dot with fraction digits \<open>fp\<close>, at least one
  digit in all, an optional exponent. The result is its exact value and the rest.
\<close>

definition decimal_literal :: "string \<Rightarrow> (rat \<times> string) option" where
  "decimal_literal u =
     (let ip = takeWhile is_digit u;
          r1 = dropWhile is_digit u;
          has_dot = (case r1 of c # r \<Rightarrow> c = CHR ''.'' | [] \<Rightarrow> False);
          fp = (if has_dot then takeWhile is_digit (tl r1) else []);
          r2 = (if has_dot then dropWhile is_digit (tl r1) else r1)
      in if ip = [] \<and> fp = [] then None
         else (case exponent_part r2 of
                 (e, r3) \<Rightarrow> Some (scale10 (of_int (digits_val (ip @ fp))) (e - int (length fp)), r3)))"

definition parseFloat_str :: "string \<Rightarrow> jsnum" where
  "parseFloat_str s =
     (let t = dropWhile is_space s;
          neg = (case t of c # r \<Rightarrow> c = CHR ''-'' | [] \<Rightarrow> False);
          u = (case t of c # r \<Rightarrow> if c = CHR ''+'' \<or> c = CHR ''-'' then r else t | [] \<Rightarrow> [])
      in if take 8 u = ''Infinity'' then (if neg then NegInf else PosInf)
         else (case decimal_literal u of
                 None \<Rightarrow> NaN
               | Some (m, rest) \<Rightarrow> to_double (if neg then - m else m)))"

text \<open>
  \<^verbatim>\<open>parseFloat(v)\<close> converts \<open>v\<close> to a string first, which may throw. The string of a
  number parses back to that number; \<^verbatim>\<open>"undefined"\<close>, \<^verbatim>\<open>"null"\<close>, \<^verbatim>\<open>"true"\<close>,
  \<^verbatim>\<open>"false"\<close> and \<^verbatim>\<open>"[object Object]"\<close> have no numeric prefix. The string of an
  array joins the strings of its elements with commas (\<^verbatim>\<open>null\<close> and
  \<^verbatim>\<open>undefined\<close> as the empty string); a comma ends every literal, so only the first
  element is read. \<open>parse_float_of\<close> is the result when the conversion does not throw.
\<close>

fun parse_float_of :: "jsval \<Rightarrow> jsnum" where
  "parse_float_of (JStr s) = parseFloat_str s"
| "parse_float_of (JNum n) = n"
| "parse_float_of (JArr (x # xs)) = (if nullish x then NaN else parse_float_of x)"
| "parse_float_of v = NaN"

definition parseFloat :: "jsval \<Rightarrow> js_error + jsnum" where
  "parseFloat v = (if conversion_throws v then Inl conversion_error else Inr (parse_float_of v))"

definition isNaN :: "jsnum \<Rightarrow> bool" where
  "isNaN n = (n = NaN)"

text \<open>\<^verbatim>\<open>n <= 0\<close>: false on \<open>NaN\<close>.\<close>

fun le_zero :: "jsnum \<Rightarrow> bool" where
  "le_zero NaN = False"
| "le_zero (Finite r) = (r \<le> 0)"
| "le_zero PosInf = False"
| "le_zero NegInf = True"












section \<open>POST /api/create-payment-intent\<close>

text \<open>
  Lines 72-77: a string price loses its first \<^verbatim>\<open>$\<close> (\<^verbatim>\<open>replace('$', '')\<close>
  replaces the first occurrence, wherever it is) and is parsed; any other price is parsed
  as it is, which throws when it does not convert to a string.
\<close>

definition normalize_price :: "jsval \<Rightarrow> js_error + jsnum" where
  "normalize_price price =
     (case price of
        JStr s \<Rightarrow> Inr (parseFloat_str (remove1 (CHR ''$'') s))
      | _ \<Rightarrow> parseFloat price)"








section \<open>POST /api/payment-success\<close>

text \<open>
  \<^verbatim>\<open>Date.now().toString()\<close>: the decimal digits of a non-negative integer, and
  \<^verbatim>\<open>s.slice(-n)\<close>: the last \<open>n\<close> characters of \<open>s\<close> (all of \<open>s\<close> when it is shorter).
\<close>

definition digit_char :: "nat \<Rightarrow> char" where
  "digit_char d = ''0123456789'' ! d"

function nat_to_string :: "nat \<Rightarrow> string" where
  "nat_to_string n =
     (if n < 10 then [digit_char n] else nat_to_string (n div 10) @ [digit_char (n mod 10)])"
  by pat_completeness auto
termination
  by (relation "measure id") auto

declare nat_to_string.simps [simp del]

definition slice_last :: "nat \<Rightarrow> string \<Rightarrow> string" where
  "slice_last n s = drop (length s - n) s"

text \<open>Line 172.\<close>

definition fallbackOrderId :: "nat \<Rightarrow> string" where
  "fallbackOrderId now = ''KK-'' @ slice_last 6 (nat_to_string now)"

text \<open>
  The two bodies handed to \<^verbatim>\<open>res.json\<close>: lines 156-165 on the durable path, lines
  174-183 in the \<^verbatim>\<open>catch\<close> once the message of line 178 is built.
\<close>

definition durable_response :: "jsval \<Rightarrow> jsval \<Rightarrow> jsval \<Rightarrow> response" where
  "durable_response orderResult paymentIntentId customer =
     res_json (OObj [
       (''success'', OVal (JBool True)),
       (''orderId'', OVal (prop_of orderResult ''orderId'')),
       (''paymentIntentId'', OVal paymentIntentId),
       (''message'', OVal (prop_of orderResult ''message'')),
       (''customerEmail'', OVal (prop_of customer ''email'')),
       (''orderTotal'', OVal (prop_of orderResult ''totalAmount'')),
       (''estimatedDelivery'', OVal (JStr ''3-5 business days'')),
       (''orderDate'', OVal (prop_of orderResult ''createdAt''))])"

definition fallback_response :: "nat \<Rightarrow> jsval \<Rightarrow> jsval \<Rightarrow> jsval \<Rightarrow> response" where
  "fallback_response now paymentIntentId customer total' =
     res_json (OObj [
       (''success'', OVal (JBool True)),
       (''orderId'', OVal (JStr (fallbackOrderId now))),
       (''paymentIntentId'', OVal paymentIntentId),
       (''message'', OTemplate [JStr ''Thank you '', prop_of customer ''name'',
          JStr ''! Your payment was successful. Order details will be sent via email.'']),
       (''customerEmail'', OVal (prop_of customer ''email'')),
       (''orderTotal'', OVal total'),
       (''estimatedDelivery'', OVal (JStr ''3-5 business days'')),
       (''warning'', OVal (JStr ''Order saved to backup system''))])"

text \<open>
  The \<^verbatim>\<open>catch\<close> block of lines 167-184: the template literal of line 178 throws when
  the customer's name does not convert to a string, and that throw leaves the block.
\<close>

definition fallback :: "nat \<Rightarrow> jsval \<Rightarrow> jsval \<Rightarrow> jsval \<Rightarrow> js_error + response" where
  "fallback now paymentIntentId customer total' =
     (case template [JStr ''Thank you '', prop_of customer ''name'',
                     JStr ''! Your payment was successful. Order details will be sent via email.''] of
        Inl e \<Rightarrow> Inl e
      | Inr msg \<Rightarrow> Inr (fallback_response now paymentIntentId customer total'))"

text \<open>
  Lines 146-184, the inner \<^verbatim>\<open>try\<close> and its \<^verbatim>\<open>catch\<close>, with the calls made.
  \<open>saved\<close> is the outcome of \<^verbatim>\<open>OrderService.createOrder\<close>. A throw of
  \<^verbatim>\<open>parseFloat(total)\<close> on line 151 comes before the call and lands in the
  \<^verbatim>\<open>catch\<close>, as does reading a property of a result that is \<^verbatim>\<open>null\<close> or
  \<^verbatim>\<open>undefined\<close>. \<open>customer\<close> is neither here (line 140 has read its name).
\<close>

definition save_order ::
  "nat \<Rightarrow> js_error + jsval \<Rightarrow> jsval \<Rightarrow> jsval \<Rightarrow> jsval \<Rightarrow> jsval \<Rightarrow> call list \<times> (js_error + response)" where
  "save_order now saved paymentIntentId customer items total' =
     (case parseFloat total' of
        Inl e \<Rightarrow> ([], fallback now paymentIntentId customer total')
      | Inr t \<Rightarrow>
          ([CreateOrder paymentIntentId customer items t],
           (case saved of
              Inr orderResult \<Rightarrow>
                if nullish orderResult then fallback now paymentIntentId customer total'
                else Inr (durable_response orderResult paymentIntentId customer)
            | Inl dbError \<Rightarrow> fallback now paymentIntentId customer total')))"

text \<open>
  The outer \<^verbatim>\<open>try\<close> block of lines 131-191. \<open>retrieved\<close> is the outcome of
  \<^verbatim>\<open>stripe.paymentIntents.retrieve\<close>, \<open>now\<close> the value of \<^verbatim>\<open>Date.now()\<close>.
\<close>

definition payment_success_try ::
  "nat \<Rightarrow> js_error + jsval \<Rightarrow> js_error + jsval \<Rightarrow> jsval \<Rightarrow> call list \<times> (js_error + response)" where
  "payment_success_try now retrieved saved req_body =
     (if nullish req_body then
        ([], Inl (TypeError ''Cannot destructure property paymentIntentId of req.body''))
      else
        let paymentIntentId = prop_of req_body ''paymentIntentId'';
            items = prop_of req_body ''items'';
            customer = prop_of req_body ''customer'';
            total' = prop_of req_body ''total''
        in (case retrieved of
              Inl e \<Rightarrow> ([StripeRetrieve paymentIntentId], Inl e)
            | Inr paymentIntent \<Rightarrow>
                if nullish paymentIntent then
                  ([StripeRetrieve paymentIntentId],
                   Inl (TypeError ''Cannot read properties of undefined or null, reading status''))
                else if prop_of paymentIntent ''status'' = JStr ''succeeded'' then
                  if nullish customer then
                    ([StripeRetrieve paymentIntentId],
                     Inl (TypeError ''Cannot read properties of undefined or null, reading name''))
                  else
                    (case save_order now saved paymentIntentId customer items total' of
                       (calls, outcome) \<Rightarrow> (StripeRetrieve paymentIntentId # calls, outcome))
                else
                  ([StripeRetrieve paymentIntentId],
                   Inr (res_status_json 400 (OObj [
                     (''error'', OVal (JStr ''Payment was not successful'')),
                     (''status'', OVal (prop_of paymentIntent ''status''))])))))"

text \<open>The handler: the \<^verbatim>\<open>catch\<close> of lines 193-199 turns every throw into a 500.\<close>

definition payment_success_handler ::
  "nat \<Rightarrow> js_error + jsval \<Rightarrow> js_error + jsval \<Rightarrow> jsval \<Rightarrow> call list \<times> response" where
  "payment_success_handler now retrieved saved req_body =
     (case payment_success_try now retrieved saved req_body of
        (calls, Inr r) \<Rightarrow> (calls, r)
      | (calls, Inl error) \<Rightarrow>
          (calls, res_status_json 500 (OObj [
             (''error'', OVal (JStr ''Failed to process payment confirmation'')),
             (''details'', OVal (JStr (error_message error)))])))"

text \<open>Whether a handler reached \<^verbatim>\<open>OrderService.createOrder\<close>.\<close>

fun is_create_order :: "call \<Rightarrow> bool" where
  "is_create_order (CreateOrder p c i t) = True"
| "is_create_order x = False"

definition attempts_order_creation :: "call list \<Rightarrow> bool" where
  "attempts_order_creation calls = list_ex is_create_order calls"

text \<open>
  The verification step throws when the gateway call rejects, or resolves to
  \<^verbatim>\<open>null\<close> or \<^verbatim>\<open>undefined\<close> so that reading its status throws.
\<close>

definition verification_throws :: "js_error + jsval \<Rightarrow> bool" where
  "verification_throws retrieved = (case retrieved of Inl e \<Rightarrow> True | Inr paymentIntent \<Rightarrow> nullish paymentIntent)"

section \<open>Integers from query strings: parseInt\<close>






section \<open>GET /api/admin/orders\<close>







section \<open>PUT /api/admin/orders/:orderId/status\<close>





section \<open>The order service\<close>







section \<open>GET /api/health\<close>

text \<open>
  Lines 294-327. \<open>stripe\<close> is the outcome of \<^verbatim>\<open>stripe.paymentIntents.list\<close>,
  \<open>db\<close> that of \<^verbatim>\<open>pool.query('SELECT 1')\<close>, \<open>ts\<close> the ISO timestamp. The
  status starts as OK, the gateway's failure sets WARNING, then the store's failure sets ERROR.
\<close>

definition health_status :: "js_error + 'a \<Rightarrow> js_error + 'b \<Rightarrow> string" where
  "health_status stripe db =
     (let s0 = ''OK'';
          s1 = (case stripe of Inr _ \<Rightarrow> s0 | Inl _ \<Rightarrow> ''WARNING'');
          s2 = (case db of Inr _ \<Rightarrow> s1 | Inl _ \<Rightarrow> ''ERROR'')
      in s2)"

definition health_handler ::
  "string \<Rightarrow> js_error + 'a \<Rightarrow> js_error + 'b \<Rightarrow> call list \<times> response" where
  "health_handler ts stripe db =
     (let st = health_status stripe db;
          health = OObj [
            (''status'', OVal (JStr st)),
            (''timestamp'', OVal (JStr ts)),
            (''services'', OObj [
               (''server'', OVal (JStr ''running'')),
               (''stripe'', OVal (JStr (case stripe of Inr _ \<Rightarrow> ''connected'' | Inl _ \<Rightarrow> ''error''))),
               (''database'', OVal (JStr (case db of Inr _ \<Rightarrow> ''connected'' | Inl _ \<Rightarrow> ''error'')))])];
          statusCode = (if st = ''OK'' then 200 else if st = ''WARNING'' then 200 else 500)
      in ([StripeList, PoolQuery ''SELECT 1''], res_status_json statusCode health))"

section \<open>The newsletter service\<close>

text \<open>
  The table of \<^verbatim>\<open>src/backend/database/newsletter-schema.sql\<close>: \<^verbatim>\<open>id SERIAL\<close>,
  \<^verbatim>\<open>email VARCHAR(255) UNIQUE NOT NULL\<close>, \<^verbatim>\<open>subscribed_at\<close> defaulting to the
  current timestamp, \<^verbatim>\<open>is_active\<close> defaulting to true. \<open>id_seq\<close> is the next value of
  the sequence behind \<^verbatim>\<open>SERIAL\<close>. The store keeps the emails of the rows distinct.
\<close>

record subscription =
  row_id :: nat
  email :: string
  subscribed_at :: nat
  is_active :: bool

record newsletter_table =
  rows :: "subscription list"
  id_seq :: nat

text \<open>
  Assigning to \<^verbatim>\<open>VARCHAR(255)\<close>: a longer value is an error unless the excess is all
  spaces, which are cut off.
\<close>

definition fits_varchar :: "nat \<Rightarrow> string \<Rightarrow> bool" where
  "fits_varchar n e = list_all (\<lambda>c. c = CHR '' '') (drop n e)"

text \<open>
  Lines 7-11 of \<^verbatim>\<open>src/unnamed/part_001\<close>:
  \<^verbatim>\<open>INSERT INTO newsletter_subscriptions (email) VALUES ($1) ON CONFLICT (email) DO UPDATE
  SET is_active = true, subscribed_at = CURRENT_TIMESTAMP RETURNING *\<close>.
  The result is the rows returned and the table afterwards; \<open>now\<close> is the current
  timestamp. The insert draws a sequence value also when it ends in the update. After a
  rejected value the table is as before (what the sequence then holds is not represented).
\<close>

definition insert_or_reactivate ::
  "nat \<Rightarrow> string \<Rightarrow> newsletter_table \<Rightarrow> (js_error + subscription list) \<times> newsletter_table" where
  "insert_or_reactivate now e tbl =
     (if \<not> fits_varchar 255 e then
        (Inl (Error ''value too long for type character varying(255)''), tbl)
      else
        let e' = take 255 e
        in if list_ex (\<lambda>r. email r = e') (rows tbl) then
             let rows' = map (\<lambda>r. if email r = e'
                                    then r\<lparr>is_active := True, subscribed_at := now\<rparr> else r) (rows tbl)
             in (Inr (filter (\<lambda>r. email r = e') rows'),
                 \<lparr>rows = rows', id_seq = id_seq tbl + 1\<rparr>)
           else
             let r = \<lparr>row_id = id_seq tbl, email = e', subscribed_at = now, is_active = True\<rparr>
             in (Inr [r], \<lparr>rows = rows tbl @ [r], id_seq = id_seq tbl + 1\<rparr>))"

text \<open>
  Lines 29-32: \<^verbatim>\<open>UPDATE newsletter_subscriptions SET is_active = false WHERE email = $1
  RETURNING *\<close>.
\<close>

definition deactivate ::
  "string \<Rightarrow> newsletter_table \<Rightarrow> (js_error + subscription list) \<times> newsletter_table" where
  "deactivate e tbl =
     (let rows' = map (\<lambda>r. if email r = e then r\<lparr>is_active := False\<rparr> else r) (rows tbl)
      in (Inr (filter (\<lambda>r. email r = e) rows'), tbl\<lparr>rows := rows'\<rparr>))"

text \<open>
  \<^verbatim>\<open>pool.query(statement, [e])\<close>. With \<open>fault = Some err\<close> the pool rejects the query
  with \<open>err\<close> before it runs (no connection, a timeout). A text parameter that contains the
  character U+0000 is rejected by the store (SQLSTATE 22021) before the statement touches
  the table. Otherwise the statement runs on the parameter.
\<close>

definition invalid_byte_sequence :: js_error where
  "invalid_byte_sequence =
     Error (''invalid byte sequence for encoding '' @ [CHR 0x22] @ ''UTF8'' @ [CHR 0x22] @ '': 0x00'')"

definition pool_query ::
  "js_error option \<Rightarrow> (string \<Rightarrow> newsletter_table \<Rightarrow> (js_error + subscription list) \<times> newsletter_table)
   \<Rightarrow> string \<Rightarrow> newsletter_table \<Rightarrow> (js_error + subscription list) \<times> newsletter_table" where
  "pool_query fault statement e tbl =
     (case fault of
        Some err \<Rightarrow> (Inl err, tbl)
      | None \<Rightarrow> if CHR 0x00 \<in> set e then (Inl invalid_byte_sequence, tbl) else statement e tbl)"

record subscribe_result =
  success :: bool
  message :: string
  subscription :: "subscription option"

record unsubscribe_result =
  success :: bool
  message :: string

text \<open>
  \<^verbatim>\<open>NewsletterService.subscribe\<close>, lines 4-24: the \<^verbatim>\<open>catch\<close> logs and rethrows.
  \<^verbatim>\<open>result.rows[0]\<close> is \<^verbatim>\<open>undefined\<close> (\<open>None\<close>) on no row.
\<close>

definition subscribe ::
  "js_error option \<Rightarrow> nat \<Rightarrow> string \<Rightarrow> newsletter_table
   \<Rightarrow> (js_error + subscribe_result) \<times> newsletter_table" where
  "subscribe fault now e tbl =
     (case pool_query fault (insert_or_reactivate now) e tbl of
        (Inl error, tbl') \<Rightarrow> (Inl error, tbl')
      | (Inr result_rows, tbl') \<Rightarrow>
          (Inr \<lparr>subscribe_result.success = True,
                message = ''Successfully subscribed to newsletter'',
                subscription = (case result_rows of [] \<Rightarrow> None | r # _ \<Rightarrow> Some r)\<rparr>,
           tbl'))"

text \<open>
  \<^verbatim>\<open>NewsletterService.unsubscribe\<close>, lines 26-48: no returned row throws
  \<^verbatim>\<open>Error('Email not found in subscription list')\<close>, which the \<^verbatim>\<open>catch\<close> logs and
  rethrows.
\<close>

definition unsubscribe ::
  "js_error option \<Rightarrow> string \<Rightarrow> newsletter_table
   \<Rightarrow> (js_error + unsubscribe_result) \<times> newsletter_table" where
  "unsubscribe fault e tbl =
     (case pool_query fault deactivate e tbl of
        (Inl error, tbl') \<Rightarrow> (Inl error, tbl')
      | (Inr result_rows, tbl') \<Rightarrow>
          if length result_rows = 0 then (Inl (Error ''Email not found in subscription list''), tbl')
          else (Inr \<lparr>unsubscribe_result.success = True,
                     message = ''Successfully unsubscribed from newsletter''\<rparr>, tbl'))"

section \<open>Theorems\<close>

subsection \<open>GET /api/health\<close>

text \<open>
  C4. For every health request the reported status is OK exactly when both checks succeed,
  WARNING exactly when the gateway check fails and the store check succeeds, ERROR exactly
  when the store check fails; the HTTP status code is 200 for OK and WARNING and 500 for ERROR.
\<close>

theorem health_handler_status:
  fixes stripe :: "js_error + 'a" and db :: "js_error + 'b"
  shows "field (body (snd (health_handler ts stripe db))) ''status''
           = Some (OVal (JStr (health_status stripe db)))
       \<and> (health_status stripe db = ''OK'' \<longleftrightarrow> isl stripe = False \<and> isl db = False)
       \<and> (health_status stripe db = ''WARNING'' \<longleftrightarrow> isl stripe \<and> isl db = False)
       \<and> (health_status stripe db = ''ERROR'' \<longleftrightarrow> isl db)
       \<and> status_code (snd (health_handler ts stripe db)) = (if isl db then 500 else 200)"
  by (cases stripe; cases db)
     (simp_all add: health_handler_def health_status_def res_status_json_def)

theorem health_handler_status_witness:
  "status_code (snd (health_handler ''t'' (Inl (Error ''x'') :: js_error + unit) (Inr () :: js_error + unit))) = 200
   \<and> health_status (Inl (Error ''x'') :: js_error + unit) (Inr () :: js_error + unit) = ''WARNING''"
  using health_handler_status [of "''t''" "Inl (Error ''x'') :: js_error + unit" "Inr () :: js_error + unit"]
  by simp

subsection \<open>POST /api/create-payment-intent\<close>

lemma to_double_12_5: "to_double (25 / 2) = Finite (25 / 2)"
  by (simp add: to_double_def round_positive_def binary_exponent_def halvings.simps scale2_def
      round_half_even_def Let_def)




lemma falsy_price_not_positive:
  assumes "\<not> truthy price" and "normalize_price price = Inr n"
  shows "isNaN n \<or> le_zero n"
  using assms
  by (cases price rule: truthy.cases)
     (auto simp add: normalize_price_def parseFloat_def isNaN_def parseFloat_str_def
        decimal_literal_def Let_def split: if_splits)














subsection \<open>POST /api/payment-success\<close>

lemma payment_success_not_succeeded:
  "\<not> nullish req_body \<Longrightarrow> retrieved = Inr paymentIntent \<Longrightarrow> \<not> nullish paymentIntent \<Longrightarrow>
   prop_of paymentIntent ''status'' \<noteq> JStr ''succeeded'' \<Longrightarrow>
   status_code (snd (payment_success_handler now retrieved saved req_body)) = 400
   \<and> fst (payment_success_handler now retrieved saved req_body)
       = [StripeRetrieve (prop_of req_body ''paymentIntentId'')]"
  by (simp add: payment_success_handler_def payment_success_try_def Let_def res_status_json_def)

lemma succeeded_branch:
  assumes "retrieved = Inr paymentIntent" and "prop_of paymentIntent ''status'' = JStr ''succeeded''"
    and "\<not> nullish (prop_of req_body ''customer'')"
  shows "payment_success_try now retrieved saved req_body =
           (StripeRetrieve (prop_of req_body ''paymentIntentId'')
              # fst (save_order now saved (prop_of req_body ''paymentIntentId'')
                       (prop_of req_body ''customer'') (prop_of req_body ''items'')
                       (prop_of req_body ''total'')),
            snd (save_order now saved (prop_of req_body ''paymentIntentId'')
                       (prop_of req_body ''customer'') (prop_of req_body ''items'')
                       (prop_of req_body ''total'')))"
proof -
  have "\<not> nullish req_body" using assms(3) by (cases req_body) (auto simp add: nullish_def)
  moreover have "\<not> nullish paymentIntent" using assms(2) by (cases paymentIntent) (auto simp add: nullish_def)
  ultimately show ?thesis using assms
    by (simp add: payment_success_try_def Let_def split: prod.splits)
qed

lemma status_200_is_save_order:
  assumes "status_code (snd (payment_success_handler now retrieved saved req_body)) = 200"
  shows "\<exists>r. snd (save_order now saved (prop_of req_body ''paymentIntentId'')
                       (prop_of req_body ''customer'') (prop_of req_body ''items'')
                       (prop_of req_body ''total'')) = Inr r
            \<and> snd (payment_success_handler now retrieved saved req_body) = r"
  using assms
  by (auto simp add: payment_success_handler_def payment_success_try_def Let_def
      res_status_json_def split: if_splits sum.splits prod.splits)

lemma save_order_shapes:
  assumes "snd (save_order now saved pid customer items tot) = Inr r"
  shows "(\<exists>orderResult t. saved = Inr orderResult \<and> \<not> nullish orderResult \<and> parseFloat tot = Inr t
             \<and> r = durable_response orderResult pid customer)
         \<or> r = fallback_response now pid customer tot"
  using assms
  by (auto simp add: save_order_def fallback_def template_def split: sum.splits if_splits)

lemma parseFloat_12_50: "parseFloat (JStr ''12.50'') = Inr (Finite (25 / 2))"
  by (simp add: parseFloat_def parseFloat_str_def decimal_literal_def is_space_def is_digit_def
      digits_val_def digit_val_def scale10_def to_double_12_5 Let_def)

text \<open>
  C1. With the intent succeeded and \<^verbatim>\<open>OrderService.createOrder\<close> rejected, a customer whose
  name is an object with a property \<^verbatim>\<open>toString\<close> of its own gets 500 and not the fallback
  answer: the template literal of line 178 throws inside the \<^verbatim>\<open>catch\<close> of lines 167-184,
  whose comment (lines 170-171) says the handler should still respond positively, and the
  outer \<^verbatim>\<open>catch\<close> of lines 193-199 answers.
\<close>

theorem payment_success_fallback_throws:
  "payment_success_handler 1762063200123
      (Inr (JObj [(''id'', JStr ''pi_1''), (''status'', JStr ''succeeded'')]))
      (Inl (Error ''connection refused''))
      (JObj [(''paymentIntentId'', JStr ''pi_1''), (''items'', JArr []),
             (''customer'', JObj [(''name'', JObj [(''toString'', JNum (Finite 1))]),
                                  (''email'', JStr ''ana@example.com'')]),
             (''total'', JNum (Finite 10))])
     = ([StripeRetrieve (JStr ''pi_1''),
         CreateOrder (JStr ''pi_1'')
           (JObj [(''name'', JObj [(''toString'', JNum (Finite 1))]), (''email'', JStr ''ana@example.com'')])
           (JArr []) (Finite 10)],
        res_status_json 500 (OObj [
          (''error'', OVal (JStr ''Failed to process payment confirmation'')),
          (''details'', OVal (JStr ''Cannot convert object to primitive value''))]))"
  by (simp add: payment_success_handler_def payment_success_try_def save_order_def fallback_def
      template_def parseFloat_def conversion_error_def nullish_def Let_def)

text \<open>
  C7. A request without \<^verbatim>\<open>customer\<close> whose intent is retrieved and succeeded gets 500
  although the verification step did not throw: line 140 reads \<^verbatim>\<open>customer.name\<close> of
  \<^verbatim>\<open>undefined\<close> before any order is created. The handler checks no field of the body,
  where the handler of \<^verbatim>\<open>/api/create-payment-intent\<close> rejects a missing customer with 400
  (lines 56-60).
\<close>

theorem payment_success_500_counterexample:
  "status_code (snd (payment_success_handler 1762063200123
      (Inr (JObj [(''id'', JStr ''pi_1''), (''status'', JStr ''succeeded'')]))
      (Inr (JObj [(''orderId'', JStr ''KK-1'')]))
      (JObj [(''paymentIntentId'', JStr ''pi_1''), (''items'', JArr []),
             (''total'', JNum (Finite 10))]))) = 500
   \<and> \<not> verification_throws (Inr (JObj [(''id'', JStr ''pi_1''), (''status'', JStr ''succeeded'')]))
   \<and> \<not> attempts_order_creation (fst (payment_success_handler 1762063200123
      (Inr (JObj [(''id'', JStr ''pi_1''), (''status'', JStr ''succeeded'')]))
      (Inr (JObj [(''orderId'', JStr ''KK-1'')]))
      (JObj [(''paymentIntentId'', JStr ''pi_1''), (''items'', JArr []),
             (''total'', JNum (Finite 10))])))"
  by (simp add: payment_success_handler_def payment_success_try_def Let_def nullish_def
      verification_throws_def res_status_json_def attempts_order_creation_def)

text \<open>
  C10. On a retrieved, succeeded intent and a request with a customer: when
  \<^verbatim>\<open>parseFloat(total)\<close> returns and \<^verbatim>\<open>createOrder\<close> resolves to a result, the handler
  calls \<^verbatim>\<open>createOrder\<close> with \<^verbatim>\<open>parseFloat(total)\<close> and answers the durable body, whose
  \<^verbatim>\<open>orderTotal\<close> is the result's \<^verbatim>\<open>totalAmount\<close> and which has no \<^verbatim>\<open>warning\<close>;
  when \<^verbatim>\<open>createOrder\<close> rejects, or \<^verbatim>\<open>parseFloat(total)\<close> throws before the call, and
  the customer's name converts to a string, it answers the fallback body, whose
  \<^verbatim>\<open>orderTotal\<close> is the request's \<^verbatim>\<open>total\<close> unchanged and which has the
  \<^verbatim>\<open>warning\<close>. Every answer with status 200 is one of the two bodies.
\<close>

theorem payment_success_order_total:
  "(retrieved = Inr paymentIntent \<longrightarrow>
    prop_of paymentIntent ''status'' = JStr ''succeeded'' \<longrightarrow>
    \<not> nullish (prop_of req_body ''customer'') \<longrightarrow>
      (\<forall>orderResult t. saved = Inr orderResult \<longrightarrow> \<not> nullish orderResult \<longrightarrow>
          parseFloat (prop_of req_body ''total'') = Inr t \<longrightarrow>
            payment_success_handler now retrieved saved req_body
              = ([StripeRetrieve (prop_of req_body ''paymentIntentId''),
                  CreateOrder (prop_of req_body ''paymentIntentId'') (prop_of req_body ''customer'')
                    (prop_of req_body ''items'') t],
                 durable_response orderResult (prop_of req_body ''paymentIntentId'')
                   (prop_of req_body ''customer'')))
    \<and> (\<forall>dbError t. saved = Inl dbError \<longrightarrow>
          parseFloat (prop_of req_body ''total'') = Inr t \<longrightarrow>
          \<not> conversion_throws (prop_of (prop_of req_body ''customer'') ''name'') \<longrightarrow>
            payment_success_handler now retrieved saved req_body
              = ([StripeRetrieve (prop_of req_body ''paymentIntentId''),
                  CreateOrder (prop_of req_body ''paymentIntentId'') (prop_of req_body ''customer'')
                    (prop_of req_body ''items'') t],
                 fallback_response now (prop_of req_body ''paymentIntentId'')
                   (prop_of req_body ''customer'') (prop_of req_body ''total'')))
    \<and> (\<forall>e. parseFloat (prop_of req_body ''total'') = Inl e \<longrightarrow>
          \<not> conversion_throws (prop_of (prop_of req_body ''customer'') ''name'') \<longrightarrow>
            payment_success_handler now retrieved saved req_body
              = ([StripeRetrieve (prop_of req_body ''paymentIntentId'')],
                 fallback_response now (prop_of req_body ''paymentIntentId'')
                   (prop_of req_body ''customer'') (prop_of req_body ''total''))))
   \<and> (status_code (snd (payment_success_handler now retrieved saved req_body)) = 200 \<longrightarrow>
        (\<exists>orderResult t. saved = Inr orderResult \<and> \<not> nullish orderResult
            \<and> parseFloat (prop_of req_body ''total'') = Inr t
            \<and> snd (payment_success_handler now retrieved saved req_body)
                = durable_response orderResult (prop_of req_body ''paymentIntentId'')
                    (prop_of req_body ''customer''))
        \<or> snd (payment_success_handler now retrieved saved req_body)
            = fallback_response now (prop_of req_body ''paymentIntentId'')
                (prop_of req_body ''customer'') (prop_of req_body ''total''))
   \<and> field (body (durable_response orderResult' pid customer')) ''orderTotal''
        = Some (OVal (prop_of orderResult' ''totalAmount''))
   \<and> field (body (durable_response orderResult' pid customer')) ''warning'' = None
   \<and> field (body (fallback_response now pid customer' tot)) ''orderTotal'' = Some (OVal tot)
   \<and> field (body (fallback_response now pid customer' tot)) ''warning''
        = Some (OVal (JStr ''Order saved to backup system''))"
proof (intro conjI impI allI)
  fix orderResult t
  assume r: "retrieved = Inr paymentIntent" and s: "prop_of paymentIntent ''status'' = JStr ''succeeded''"
    and c: "\<not> nullish (prop_of req_body ''customer'')"
    and sv: "saved = Inr orderResult" and nn: "\<not> nullish orderResult"
    and pf: "parseFloat (prop_of req_body ''total'') = Inr t"
  show "payment_success_handler now retrieved saved req_body
              = ([StripeRetrieve (prop_of req_body ''paymentIntentId''),
                  CreateOrder (prop_of req_body ''paymentIntentId'') (prop_of req_body ''customer'')
                    (prop_of req_body ''items'') t],
                 durable_response orderResult (prop_of req_body ''paymentIntentId'')
                   (prop_of req_body ''customer''))"
    using sv nn pf
    by (simp add: payment_success_handler_def succeeded_branch [OF r s c] save_order_def)
next
  fix dbError t
  assume r: "retrieved = Inr paymentIntent" and s: "prop_of paymentIntent ''status'' = JStr ''succeeded''"
    and c: "\<not> nullish (prop_of req_body ''customer'')"
    and sv: "saved = Inl dbError"
    and pf: "parseFloat (prop_of req_body ''total'') = Inr t"
    and cv: "\<not> conversion_throws (prop_of (prop_of req_body ''customer'') ''name'')"
  show "payment_success_handler now retrieved saved req_body
              = ([StripeRetrieve (prop_of req_body ''paymentIntentId''),
                  CreateOrder (prop_of req_body ''paymentIntentId'') (prop_of req_body ''customer'')
                    (prop_of req_body ''items'') t],
                 fallback_response now (prop_of req_body ''paymentIntentId'')
                   (prop_of req_body ''customer'') (prop_of req_body ''total''))"
    using sv cv pf
    by (simp add: payment_success_handler_def succeeded_branch [OF r s c] save_order_def
        fallback_def template_def)
next
  fix e
  assume r: "retrieved = Inr paymentIntent" and s: "prop_of paymentIntent ''status'' = JStr ''succeeded''"
    and c: "\<not> nullish (prop_of req_body ''customer'')"
    and pf: "parseFloat (prop_of req_body ''total'') = Inl e"
    and cv: "\<not> conversion_throws (prop_of (prop_of req_body ''customer'') ''name'')"
  show "payment_success_handler now retrieved saved req_body
              = ([StripeRetrieve (prop_of req_body ''paymentIntentId'')],
                 fallback_response now (prop_of req_body ''paymentIntentId'')
                   (prop_of req_body ''customer'') (prop_of req_body ''total''))"
    using cv pf
    by (simp add: payment_success_handler_def succeeded_branch [OF r s c] save_order_def
        fallback_def template_def)
next
  assume "status_code (snd (payment_success_handler now retrieved saved req_body)) = 200"
  from status_200_is_save_order [OF this] obtain r where
    r: "snd (save_order now saved (prop_of req_body ''paymentIntentId'')
                       (prop_of req_body ''customer'') (prop_of req_body ''items'')
                       (prop_of req_body ''total'')) = Inr r"
    and h: "snd (payment_success_handler now retrieved saved req_body) = r"
    by blast
  from save_order_shapes [OF r] h
  show "(\<exists>orderResult t. saved = Inr orderResult \<and> \<not> nullish orderResult
            \<and> parseFloat (prop_of req_body ''total'') = Inr t
            \<and> snd (payment_success_handler now retrieved saved req_body)
                = durable_response orderResult (prop_of req_body ''paymentIntentId'')
                    (prop_of req_body ''customer''))
        \<or> snd (payment_success_handler now retrieved saved req_body)
            = fallback_response now (prop_of req_body ''paymentIntentId'')
                (prop_of req_body ''customer'') (prop_of req_body ''total'')"
    by (simp only:)
next
  show "field (body (durable_response orderResult' pid customer')) ''orderTotal''
        = Some (OVal (prop_of orderResult' ''totalAmount''))"
    by (simp add: durable_response_def res_json_def)
  show "field (body (durable_response orderResult' pid customer')) ''warning'' = None"
    by (simp add: durable_response_def res_json_def)
  show "field (body (fallback_response now pid customer' tot)) ''orderTotal'' = Some (OVal tot)"
    by (simp add: fallback_response_def res_json_def)
  show "field (body (fallback_response now pid customer' tot)) ''warning''
        = Some (OVal (JStr ''Order saved to backup system''))"
    by (simp add: fallback_response_def res_json_def)
qed

theorem payment_success_order_total_witness:
  "payment_success_handler 5 (Inr (JObj [(''status'', JStr ''succeeded'')]))
      (Inr (JObj [(''orderId'', JStr ''KK-1''), (''totalAmount'', JNum (Finite (25 / 2)))]))
      (JObj [(''paymentIntentId'', JStr ''pi_1''), (''customer'', JObj [(''name'', JStr ''Ana'')]),
             (''total'', JStr ''12.50'')])
     = ([StripeRetrieve (JStr ''pi_1''),
         CreateOrder (JStr ''pi_1'') (JObj [(''name'', JStr ''Ana'')]) JUndefined (Finite (25 / 2))],
        durable_response (JObj [(''orderId'', JStr ''KK-1''), (''totalAmount'', JNum (Finite (25 / 2)))])
          (JStr ''pi_1'') (JObj [(''name'', JStr ''Ana'')]))
   \<and> snd (payment_success_handler 5 (Inr (JObj [(''status'', JStr ''succeeded'')]))
      (Inl (Error ''connection refused''))
      (JObj [(''paymentIntentId'', JStr ''pi_1''), (''customer'', JObj [(''name'', JStr ''Ana'')]),
             (''total'', JStr ''12.50'')]))
     = fallback_response 5 (JStr ''pi_1'') (JObj [(''name'', JStr ''Ana'')]) (JStr ''12.50'')
   \<and> payment_success_handler 5 (Inr (JObj [(''status'', JStr ''succeeded'')]))
      (Inr (JObj [(''orderId'', JStr ''KK-1'')]))
      (JObj [(''paymentIntentId'', JStr ''pi_1''), (''customer'', JObj [(''name'', JStr ''Ana'')]),
             (''total'', JObj [(''toString'', JNum (Finite 1))])])
     = ([StripeRetrieve (JStr ''pi_1'')],
        fallback_response 5 (JStr ''pi_1'') (JObj [(''name'', JStr ''Ana'')])
          (JObj [(''toString'', JNum (Finite 1))]))
   \<and> field (body (fallback_response 5 (JStr ''pi_1'') (JObj [(''name'', JStr ''Ana'')]) (JStr ''12.50'')))
       ''orderTotal'' = Some (OVal (JStr ''12.50''))"
proof -
  let ?body = "JObj [(''paymentIntentId'', JStr ''pi_1''), (''customer'', JObj [(''name'', JStr ''Ana'')]),
             (''total'', JStr ''12.50'')]"
  let ?body' = "JObj [(''paymentIntentId'', JStr ''pi_1''), (''customer'', JObj [(''name'', JStr ''Ana'')]),
             (''total'', JObj [(''toString'', JNum (Finite 1))])]"
  let ?pi = "JObj [(''status'', JStr ''succeeded'')]"
  let ?res = "JObj [(''orderId'', JStr ''KK-1''), (''totalAmount'', JNum (Finite (25 / 2)))]"
  note t1 = payment_success_order_total [of "Inr ?pi" ?pi ?body "Inr ?res" 5]
  note t2 = payment_success_order_total [of "Inr ?pi" ?pi ?body "Inl (Error ''connection refused'')" 5
      _ "JStr ''pi_1''" "JObj [(''name'', JStr ''Ana'')]" "JStr ''12.50''"]
  note t3 = payment_success_order_total [of "Inr ?pi" ?pi ?body' "Inr (JObj [(''orderId'', JStr ''KK-1'')])" 5]
  have s: "prop_of ?pi ''status'' = JStr ''succeeded''" by simp
  have c: "\<not> nullish (prop_of ?body ''customer'')" by (simp add: nullish_def)
  have c': "\<not> nullish (prop_of ?body' ''customer'')" by (simp add: nullish_def)
  have nn: "\<not> nullish ?res" by (simp add: nullish_def)
  have pf: "parseFloat (prop_of ?body ''total'') = Inr (Finite (25 / 2))"
    using parseFloat_12_50 by simp
  have pf': "parseFloat (prop_of ?body' ''total'') = Inl conversion_error"
    by (simp add: parseFloat_def)
  have cv: "\<not> conversion_throws (prop_of (prop_of ?body ''customer'') ''name'')" by simp
  have cv': "\<not> conversion_throws (prop_of (prop_of ?body' ''customer'') ''name'')" by simp
  have a: "payment_success_handler 5 (Inr ?pi) (Inr ?res) ?body
     = ([StripeRetrieve (prop_of ?body ''paymentIntentId''),
         CreateOrder (prop_of ?body ''paymentIntentId'') (prop_of ?body ''customer'')
           (prop_of ?body ''items'') (Finite (25 / 2))],
        durable_response ?res (prop_of ?body ''paymentIntentId'') (prop_of ?body ''customer''))"
    using t1 [THEN conjunct1, rule_format, OF refl s c, THEN conjunct1, rule_format, OF refl nn pf] .
  have b: "payment_success_handler 5 (Inr ?pi) (Inl (Error ''connection refused'')) ?body
     = ([StripeRetrieve (prop_of ?body ''paymentIntentId''),
         CreateOrder (prop_of ?body ''paymentIntentId'') (prop_of ?body ''customer'')
           (prop_of ?body ''items'') (Finite (25 / 2))],
        fallback_response 5 (prop_of ?body ''paymentIntentId'') (prop_of ?body ''customer'')
         (prop_of ?body ''total''))"
    using t2 [THEN conjunct1, rule_format, OF refl s c, THEN conjunct2, THEN conjunct1,
        rule_format, OF refl pf cv] .
  have e: "payment_success_handler 5 (Inr ?pi) (Inr (JObj [(''orderId'', JStr ''KK-1'')])) ?body'
     = ([StripeRetrieve (prop_of ?body' ''paymentIntentId'')],
        fallback_response 5 (prop_of ?body' ''paymentIntentId'') (prop_of ?body' ''customer'')
         (prop_of ?body' ''total''))"
    using t3 [THEN conjunct1, rule_format, OF refl s c', THEN conjunct2, THEN conjunct2,
        rule_format, OF pf' cv'] .
  have d: "field (body (fallback_response 5 (JStr ''pi_1'') (JObj [(''name'', JStr ''Ana'')]) (JStr ''12.50'')))
       ''orderTotal'' = Some (OVal (JStr ''12.50''))"
    using t2 [THEN conjunct2, THEN conjunct2, THEN conjunct2, THEN conjunct2, THEN conjunct1] .
  show ?thesis using a b e d by simp
qed

subsection \<open>GET /api/admin/orders\<close>










subsection \<open>PUT /api/admin/orders/:orderId/status\<close>




subsection \<open>The newsletter service\<close>

lemma fits_short: "length e \<le> 255 \<Longrightarrow> fits_varchar 255 e \<and> take 255 e = e"
  by (simp add: fits_varchar_def)

lemma count_email_distinct:
  "distinct (map email rs) \<Longrightarrow> length (filter (\<lambda>r. email r = e) rs) = (if e \<in> email ` set rs then 1 else 0)"
proof (induction rs)
  case Nil
  then show ?case by simp
next
  case (Cons a rs)
  then show ?case by (auto simp add: image_iff)
qed

lemma reactivate_emails:
  "map email (map (\<lambda>r. if email r = e then r\<lparr>is_active := True, subscribed_at := t\<rparr> else r) rs) = map email rs"
  by (induction rs) auto

lemma reactivate_set:
  "email ` set (map (\<lambda>r. if email r = e then r\<lparr>is_active := True, subscribed_at := t\<rparr> else r) rs) = email ` set rs"
proof -
  have "set (map email (map (\<lambda>r. if email r = e then r\<lparr>is_active := True, subscribed_at := t\<rparr> else r) rs)) = set (map email rs)"
    by (simp only: reactivate_emails)
  then show ?thesis by (simp only: set_map image_image)
qed

lemma insert_fresh:
  assumes "length e \<le> 255" and "e \<notin> email ` set (rows tbl)"
  shows "insert_or_reactivate now e tbl =
           (Inr [\<lparr>row_id = id_seq tbl, email = e, subscribed_at = now, is_active = True\<rparr>],
            \<lparr>rows = rows tbl @ [\<lparr>row_id = id_seq tbl, email = e, subscribed_at = now, is_active = True\<rparr>],
             id_seq = id_seq tbl + 1\<rparr>)"
  using assms fits_short [OF assms(1)]
  by (auto simp add: insert_or_reactivate_def Let_def list_ex_iff)

lemma insert_existing:
  assumes "length e \<le> 255" and "e \<in> email ` set (rows tbl)"
  shows "insert_or_reactivate now e tbl =
           (Inr (filter (\<lambda>r. email r = e)
                   (map (\<lambda>r. if email r = e then r\<lparr>is_active := True, subscribed_at := now\<rparr> else r) (rows tbl))),
            \<lparr>rows = map (\<lambda>r. if email r = e then r\<lparr>is_active := True, subscribed_at := now\<rparr> else r) (rows tbl),
             id_seq = id_seq tbl + 1\<rparr>)"
  using assms fits_short [OF assms(1)]
  by (auto simp add: insert_or_reactivate_def Let_def list_ex_iff)

lemma after_insert:
  assumes len: "length e \<le> 255" and d: "distinct (map email (rows tbl))"
  shows "\<exists>rs tbl'. insert_or_reactivate now e tbl = (Inr rs, tbl')
           \<and> distinct (map email (rows tbl'))
           \<and> e \<in> email ` set (rows tbl')
           \<and> (\<forall>r\<in>set (rows tbl'). email r = e \<longrightarrow> is_active r \<and> subscribed_at r = now)
           \<and> length (rows tbl') = (if e \<in> email ` set (rows tbl) then length (rows tbl) else length (rows tbl) + 1)
           \<and> set rs = {r \<in> set (rows tbl'). email r = e}"
proof (cases "e \<in> email ` set (rows tbl)")
  case True
  let ?f = "\<lambda>r. if email r = e then r\<lparr>is_active := True, subscribed_at := now\<rparr> else r"
  let ?rows = "map ?f (rows tbl)"
  have eq: "insert_or_reactivate now e tbl
              = (Inr (filter (\<lambda>r. email r = e) ?rows), \<lparr>rows = ?rows, id_seq = id_seq tbl + 1\<rparr>)"
    by (rule insert_existing [OF len True])
  have 1: "distinct (map email ?rows)" using d by (simp only: reactivate_emails)
  have 2: "e \<in> email ` set ?rows" using True by (simp only: reactivate_set)
  have 3: "\<forall>r\<in>set ?rows. email r = e \<longrightarrow> is_active r \<and> subscribed_at r = now"
  proof (intro ballI impI)
    fix r assume "r \<in> set ?rows" and re: "email r = e"
    then obtain x where x: "x \<in> set (rows tbl)" "r = ?f x" by (auto simp only: set_map)
    show "is_active r \<and> subscribed_at r = now"
    proof (cases "email x = e")
      case True
      then show ?thesis using x(2) by simp
    next
      case False
      then show ?thesis using x(2) re by simp
    qed
  qed
  have 4: "length ?rows = length (rows tbl)" by (simp only: length_map)
  have 5: "set (filter (\<lambda>r. email r = e) ?rows) = {r \<in> set ?rows. email r = e}"
    by (simp only: set_filter)
  have sel: "rows \<lparr>rows = ?rows, id_seq = id_seq tbl + 1\<rparr> = ?rows" by simp
  show ?thesis
  proof (intro exI conjI)
    show "insert_or_reactivate now e tbl
              = (Inr (filter (\<lambda>r. email r = e) ?rows), \<lparr>rows = ?rows, id_seq = id_seq tbl + 1\<rparr>)"
      by (rule eq)
    show "distinct (map email (rows \<lparr>rows = ?rows, id_seq = id_seq tbl + 1\<rparr>))"
      using 1 by (simp only: sel)
    show "e \<in> email ` set (rows \<lparr>rows = ?rows, id_seq = id_seq tbl + 1\<rparr>)"
      using 2 by (simp only: sel)
    show "\<forall>r\<in>set (rows \<lparr>rows = ?rows, id_seq = id_seq tbl + 1\<rparr>).
            email r = e \<longrightarrow> is_active r \<and> subscribed_at r = now"
      using 3 by (simp only: sel)
    show "length (rows \<lparr>rows = ?rows, id_seq = id_seq tbl + 1\<rparr>)
            = (if e \<in> email ` set (rows tbl) then length (rows tbl) else length (rows tbl) + 1)"
      using 4 True by (simp only: sel if_True)
    show "set (filter (\<lambda>r. email r = e) ?rows)
            = {r \<in> set (rows \<lparr>rows = ?rows, id_seq = id_seq tbl + 1\<rparr>). email r = e}"
      using 5 by (simp only: sel)
  qed
next
  case False
  let ?r = "\<lparr>row_id = id_seq tbl, email = e, subscribed_at = now, is_active = True\<rparr>"
  have eq: "insert_or_reactivate now e tbl
              = (Inr [?r], \<lparr>rows = rows tbl @ [?r], id_seq = id_seq tbl + 1\<rparr>)"
    by (rule insert_fresh [OF len False])
  have ne: "\<forall>x\<in>set (rows tbl). email x \<noteq> e" using False by blast
  show ?thesis
  proof (intro exI conjI)
    show "insert_or_reactivate now e tbl
              = (Inr [?r], \<lparr>rows = rows tbl @ [?r], id_seq = id_seq tbl + 1\<rparr>)"
      by (rule eq)
    show "distinct (map email (rows \<lparr>rows = rows tbl @ [?r], id_seq = id_seq tbl + 1\<rparr>))"
      using d False by simp
    show "e \<in> email ` set (rows \<lparr>rows = rows tbl @ [?r], id_seq = id_seq tbl + 1\<rparr>)"
      by simp
    show "\<forall>r\<in>set (rows \<lparr>rows = rows tbl @ [?r], id_seq = id_seq tbl + 1\<rparr>).
            email r = e \<longrightarrow> is_active r \<and> subscribed_at r = now"
      using ne by simp
    show "length (rows \<lparr>rows = rows tbl @ [?r], id_seq = id_seq tbl + 1\<rparr>)
            = (if e \<in> email ` set (rows tbl) then length (rows tbl) else length (rows tbl) + 1)"
      using False by simp
    show "set [?r] = {r \<in> set (rows \<lparr>rows = rows tbl @ [?r], id_seq = id_seq tbl + 1\<rparr>). email r = e}"
      using ne by auto
  qed
qed

lemma insert_stored:
  "fits_varchar 255 e \<Longrightarrow> insert_or_reactivate now e tbl = insert_or_reactivate now (take 255 e) tbl"
  by (simp add: insert_or_reactivate_def fits_varchar_def)

lemma subscribe_ok:
  "CHR 0x00 \<notin> set e \<Longrightarrow> insert_or_reactivate now e tbl = (Inr rs, tbl') \<Longrightarrow>
   subscribe None now e tbl =
     (Inr \<lparr>subscribe_result.success = True,
           message = ''Successfully subscribed to newsletter'',
           subscription = (case rs of [] \<Rightarrow> None | r # _ \<Rightarrow> Some r)\<rparr>, tbl')"
  by (simp add: subscribe_def pool_query_def)

lemma first_row:
  assumes "set rs = {r \<in> set xs. email r = e}" and "e \<in> email ` set xs"
    and "\<forall>r\<in>set xs. email r = e \<longrightarrow> is_active r \<and> subscribed_at r = now"
  shows "\<exists>r. (case rs of [] \<Rightarrow> None | r # _ \<Rightarrow> Some r) = Some r
             \<and> email r = e \<and> is_active r \<and> subscribed_at r = now"
proof (cases rs)
  case Nil
  then have "{r \<in> set xs. email r = e} = {}" using assms(1) by simp
  then show ?thesis using assms(2) by blast
next
  case (Cons a rs')
  then have "a \<in> {r \<in> set xs. email r = e}" using assms(1) by auto
  then show ?thesis using Cons assms(3) by simp
qed

lemma deactivate_emails:
  "map email (map (\<lambda>r. if email r = e then r\<lparr>is_active := False\<rparr> else r) rs) = map email rs
   \<and> map row_id (map (\<lambda>r. if email r = e then r\<lparr>is_active := False\<rparr> else r) rs) = map row_id rs
   \<and> map subscribed_at (map (\<lambda>r. if email r = e then r\<lparr>is_active := False\<rparr> else r) rs) = map subscribed_at rs"
  by (induction rs) auto

lemma deactivate_absent:
  "e \<notin> email ` set rs \<Longrightarrow> map (\<lambda>r. if email r = e then r\<lparr>is_active := False\<rparr> else r) rs = rs"
  by (induction rs) auto

text \<open>
  C5 fails as stated: for an email of 256 letters both calls of \<^verbatim>\<open>subscribe\<close> throw
  (the column is \<^verbatim>\<open>VARCHAR(255)\<close>) and no row is left for it.
\<close>

theorem subscribe_long_email_counterexample:
  "fst (subscribe None 10 (replicate 256 (CHR ''a'')) \<lparr>rows = [], id_seq = 1\<rparr>)
     = Inl (Error ''value too long for type character varying(255)'')
   \<and> fst (subscribe None 20 (replicate 256 (CHR ''a''))
            (snd (subscribe None 10 (replicate 256 (CHR ''a'')) \<lparr>rows = [], id_seq = 1\<rparr>)))
     = Inl (Error ''value too long for type character varying(255)'')
   \<and> rows (snd (subscribe None 20 (replicate 256 (CHR ''a''))
            (snd (subscribe None 10 (replicate 256 (CHR ''a'')) \<lparr>rows = [], id_seq = 1\<rparr>)))) = []"
  by (simp add: subscribe_def pool_query_def insert_or_reactivate_def fits_varchar_def)

text \<open>
  C5, amended. With the store reachable: an email that contains U+0000 and an email that
  does not fit \<^verbatim>\<open>VARCHAR(255)\<close> make \<^verbatim>\<open>subscribe\<close> throw and leave the table as it
  was. For every other email (every email of at most 255 characters without U+0000 is one,
  and is stored as it is) two calls in a row both succeed and leave exactly one row for the
  stored email, active and with the second call's timestamp; the first call appends the row
  when the email is new and adds none otherwise, the second call adds no row.
\<close>

theorem subscribe_twice:
  assumes d: "distinct (map email (rows tbl))"
  shows "(CHR 0x00 \<in> set e \<longrightarrow> subscribe None t1 e tbl = (Inl invalid_byte_sequence, tbl))
       \<and> (CHR 0x00 \<notin> set e \<longrightarrow> \<not> fits_varchar 255 e \<longrightarrow>
            subscribe None t1 e tbl = (Inl (Error ''value too long for type character varying(255)''), tbl))
       \<and> (length e \<le> 255 \<longrightarrow> fits_varchar 255 e \<and> take 255 e = e)
       \<and> (CHR 0x00 \<notin> set e \<longrightarrow> fits_varchar 255 e \<longrightarrow>
           (\<exists>res1 tbl1 res2 tbl2.
                subscribe None t1 e tbl = (Inr res1, tbl1)
              \<and> subscribe None t2 e tbl1 = (Inr res2, tbl2)
              \<and> length (filter (\<lambda>r. email r = take 255 e) (rows tbl2)) = 1
              \<and> (\<forall>r\<in>set (rows tbl2). email r = take 255 e \<longrightarrow> is_active r \<and> subscribed_at r = t2)
              \<and> length (rows tbl2) = length (rows tbl1)
              \<and> (take 255 e \<notin> email ` set (rows tbl) \<longrightarrow>
                    rows tbl1 = rows tbl @ [\<lparr>row_id = id_seq tbl, email = take 255 e,
                                             subscribed_at = t1, is_active = True\<rparr>])
              \<and> (take 255 e \<in> email ` set (rows tbl) \<longrightarrow> length (rows tbl1) = length (rows tbl))
              \<and> (\<exists>r. subscription res2 = Some r \<and> email r = take 255 e \<and> is_active r
                       \<and> subscribed_at r = t2)
              \<and> distinct (map email (rows tbl2))))"
proof (intro conjI impI)
  show "CHR 0x00 \<in> set e \<Longrightarrow> subscribe None t1 e tbl = (Inl invalid_byte_sequence, tbl)"
    by (simp add: subscribe_def pool_query_def)
  show "CHR 0x00 \<notin> set e \<Longrightarrow> \<not> fits_varchar 255 e \<Longrightarrow>
            subscribe None t1 e tbl = (Inl (Error ''value too long for type character varying(255)''), tbl)"
    by (simp add: subscribe_def pool_query_def insert_or_reactivate_def)
  show "length e \<le> 255 \<Longrightarrow> fits_varchar 255 e" by (simp add: fits_varchar_def)
  show "length e \<le> 255 \<Longrightarrow> take 255 e = e" by simp
next
  assume nul: "CHR 0x00 \<notin> set e" and fits: "fits_varchar 255 e"
  let ?e = "take 255 e"
  have len: "length ?e \<le> 255" by simp
  from after_insert [OF len d, of t1] obtain rs1 tbl1 where
    i1: "insert_or_reactivate t1 ?e tbl = (Inr rs1, tbl1)"
    and d1: "distinct (map email (rows tbl1))"
    and m1: "?e \<in> email ` set (rows tbl1)"
    and l1: "length (rows tbl1) = (if ?e \<in> email ` set (rows tbl) then length (rows tbl) else length (rows tbl) + 1)"
    by blast
  from after_insert [OF len d1, of t2] obtain rs2 tbl2 where
    i2: "insert_or_reactivate t2 ?e tbl1 = (Inr rs2, tbl2)"
    and d2: "distinct (map email (rows tbl2))"
    and m2: "?e \<in> email ` set (rows tbl2)"
    and a2: "\<forall>r\<in>set (rows tbl2). email r = ?e \<longrightarrow> is_active r \<and> subscribed_at r = t2"
    and l2: "length (rows tbl2) = (if ?e \<in> email ` set (rows tbl1) then length (rows tbl1) else length (rows tbl1) + 1)"
    and s2: "set rs2 = {r \<in> set (rows tbl2). email r = ?e}"
    by blast
  have j1: "insert_or_reactivate t1 e tbl = (Inr rs1, tbl1)"
    using i1 by (simp only: insert_stored [OF fits])
  have j2: "insert_or_reactivate t2 e tbl1 = (Inr rs2, tbl2)"
    using i2 by (simp only: insert_stored [OF fits])
  let ?res1 = "\<lparr>subscribe_result.success = True,
           message = ''Successfully subscribed to newsletter'',
           subscription = (case rs1 of [] \<Rightarrow> None | r # _ \<Rightarrow> Some r)\<rparr>"
  let ?res2 = "\<lparr>subscribe_result.success = True,
           message = ''Successfully subscribed to newsletter'',
           subscription = (case rs2 of [] \<Rightarrow> None | r # _ \<Rightarrow> Some r)\<rparr>"
  have c: "length (filter (\<lambda>r. email r = ?e) (rows tbl2)) = 1"
    using count_email_distinct [OF d2, of ?e] m2 by simp
  have l: "length (rows tbl2) = length (rows tbl1)" using l2 m1 by simp
  have f: "?e \<notin> email ` set (rows tbl) \<longrightarrow>
                rows tbl1 = rows tbl @ [\<lparr>row_id = id_seq tbl, email = ?e, subscribed_at = t1, is_active = True\<rparr>]"
  proof
    assume "?e \<notin> email ` set (rows tbl)"
    from insert_fresh [OF len this, of t1] i1 show
      "rows tbl1 = rows tbl @ [\<lparr>row_id = id_seq tbl, email = ?e, subscribed_at = t1, is_active = True\<rparr>]"
      by auto
  qed
  have g: "?e \<in> email ` set (rows tbl) \<longrightarrow> length (rows tbl1) = length (rows tbl)"
    using l1 by simp
  have r: "\<exists>r. subscription ?res2 = Some r \<and> email r = ?e \<and> is_active r \<and> subscribed_at r = t2"
    using first_row [OF s2 m2 a2] by simp
  show "\<exists>res1 tbl1 res2 tbl2.
                subscribe None t1 e tbl = (Inr res1, tbl1)
              \<and> subscribe None t2 e tbl1 = (Inr res2, tbl2)
              \<and> length (filter (\<lambda>r. email r = take 255 e) (rows tbl2)) = 1
              \<and> (\<forall>r\<in>set (rows tbl2). email r = take 255 e \<longrightarrow> is_active r \<and> subscribed_at r = t2)
              \<and> length (rows tbl2) = length (rows tbl1)
              \<and> (take 255 e \<notin> email ` set (rows tbl) \<longrightarrow>
                    rows tbl1 = rows tbl @ [\<lparr>row_id = id_seq tbl, email = take 255 e,
                                             subscribed_at = t1, is_active = True\<rparr>])
              \<and> (take 255 e \<in> email ` set (rows tbl) \<longrightarrow> length (rows tbl1) = length (rows tbl))
              \<and> (\<exists>r. subscription res2 = Some r \<and> email r = take 255 e \<and> is_active r
                       \<and> subscribed_at r = t2)
              \<and> distinct (map email (rows tbl2))"
    using subscribe_ok [OF nul j1] subscribe_ok [OF nul j2] c a2 l f g r d2 by blast
qed

theorem subscribe_twice_witness:
  "distinct (map email (rows \<lparr>rows = [], id_seq = 1\<rparr>))
   \<and> CHR 0x00 \<notin> set ''ana@example.com''
   \<and> fits_varchar 255 ''ana@example.com''
   \<and> take 255 ''ana@example.com'' = ''ana@example.com''
   \<and> rows (snd (subscribe None 20 ''ana@example.com''
              (snd (subscribe None 10 ''ana@example.com'' \<lparr>rows = [], id_seq = 1\<rparr>))))
       = [\<lparr>row_id = 1, email = ''ana@example.com'', subscribed_at = 20, is_active = True\<rparr>]"
proof -
  have h1: "distinct (map email (rows \<lparr>rows = [], id_seq = 1\<rparr>))" by simp
  have h2: "CHR 0x00 \<notin> set ''ana@example.com''" by simp
  have h3: "length ''ana@example.com'' \<le> 255" by simp
  note t = subscribe_twice [OF h1, of "''ana@example.com''" 10 20]
  have h4: "fits_varchar 255 ''ana@example.com'' \<and> take 255 ''ana@example.com'' = ''ana@example.com''"
    using t [THEN conjunct2, THEN conjunct2, THEN conjunct1, rule_format, OF h3] .
  from t [THEN conjunct2, THEN conjunct2, THEN conjunct2, rule_format, OF h2 h4 [THEN conjunct1]]
  obtain res1 tbl1 res2 tbl2 where
    s1: "subscribe None 10 ''ana@example.com'' \<lparr>rows = [], id_seq = 1\<rparr> = (Inr res1, tbl1)"
    and s2: "subscribe None 20 ''ana@example.com'' tbl1 = (Inr res2, tbl2)"
    by blast
  have "rows (snd (subscribe None 20 ''ana@example.com''
              (snd (subscribe None 10 ''ana@example.com'' \<lparr>rows = [], id_seq = 1\<rparr>))))
       = [\<lparr>row_id = 1, email = ''ana@example.com'', subscribed_at = 20, is_active = True\<rparr>]"
    by (simp add: subscribe_def pool_query_def insert_or_reactivate_def fits_varchar_def Let_def)
  then show ?thesis using h1 h2 h4 by simp
qed

text \<open>
  C6 fails as stated: an email that contains U+0000 has no row, and \<^verbatim>\<open>unsubscribe\<close>
  throws the store's rejection of the parameter, not
  \<^verbatim>\<open>Email not found in subscription list\<close>.
\<close>

theorem unsubscribe_nul_counterexample:
  "[CHR 0x00] \<notin> email ` set (rows \<lparr>rows = [], id_seq = 1\<rparr>)
   \<and> unsubscribe None [CHR 0x00] \<lparr>rows = [], id_seq = 1\<rparr>
       = (Inl invalid_byte_sequence, \<lparr>rows = [], id_seq = 1\<rparr>)
   \<and> invalid_byte_sequence \<noteq> Error ''Email not found in subscription list''"
  by (simp add: unsubscribe_def pool_query_def invalid_byte_sequence_def)

text \<open>
  C6, amended. With the store reachable: for an email that contains U+0000
  \<^verbatim>\<open>unsubscribe\<close> throws the store's rejection of the parameter. For every other email it
  throws \<^verbatim>\<open>Email not found in subscription list\<close> and changes nothing when no row has
  the email; otherwise it succeeds, every row with the email is inactive afterwards, and no
  row is removed or otherwise changed.
\<close>

theorem unsubscribe_cases:
  "(CHR 0x00 \<in> set e \<longrightarrow> unsubscribe None e tbl = (Inl invalid_byte_sequence, tbl))
   \<and> (CHR 0x00 \<notin> set e \<longrightarrow> e \<notin> email ` set (rows tbl) \<longrightarrow>
      unsubscribe None e tbl = (Inl (Error ''Email not found in subscription list''), tbl))
   \<and> (CHR 0x00 \<notin> set e \<longrightarrow> e \<in> email ` set (rows tbl) \<longrightarrow>
      (\<exists>tbl'. unsubscribe None e tbl
                 = (Inr \<lparr>unsubscribe_result.success = True,
                         message = ''Successfully unsubscribed from newsletter''\<rparr>, tbl')
           \<and> map email (rows tbl') = map email (rows tbl)
           \<and> map row_id (rows tbl') = map row_id (rows tbl)
           \<and> map subscribed_at (rows tbl') = map subscribed_at (rows tbl)
           \<and> id_seq tbl' = id_seq tbl
           \<and> (\<forall>r\<in>set (rows tbl'). email r = e \<longrightarrow> \<not> is_active r)
           \<and> (\<forall>r\<in>set (rows tbl'). email r \<noteq> e \<longrightarrow> r \<in> set (rows tbl))))"
proof (intro conjI impI)
  show "CHR 0x00 \<in> set e \<Longrightarrow> unsubscribe None e tbl = (Inl invalid_byte_sequence, tbl)"
    by (simp add: unsubscribe_def pool_query_def)
next
  assume nul: "CHR 0x00 \<notin> set e" and a: "e \<notin> email ` set (rows tbl)"
  then have "filter (\<lambda>r. email r = e) (rows tbl) = []" by (auto simp add: filter_empty_conv)
  then show "unsubscribe None e tbl = (Inl (Error ''Email not found in subscription list''), tbl)"
    using deactivate_absent [OF a] nul
    by (simp add: unsubscribe_def pool_query_def deactivate_def Let_def)
next
  assume nul: "CHR 0x00 \<notin> set e" and a: "e \<in> email ` set (rows tbl)"
  let ?f = "\<lambda>r. if email r = e then r\<lparr>is_active := False\<rparr> else r"
  let ?rows = "map ?f (rows tbl)"
  from a obtain x where x: "x \<in> set (rows tbl)" "email x = e" by auto
  then have "?f x \<in> set (filter (\<lambda>r. email r = e) ?rows)" by auto
  then have "filter (\<lambda>r. email r = e) ?rows \<noteq> []" by (metis empty_iff empty_set)
  then have ne: "length (filter (\<lambda>r. email r = e) ?rows) \<noteq> 0" by (simp only: length_0_conv simp_thms)
  have u: "unsubscribe None e tbl
                 = (Inr \<lparr>unsubscribe_result.success = True,
                         message = ''Successfully unsubscribed from newsletter''\<rparr>, tbl\<lparr>rows := ?rows\<rparr>)"
    using ne nul by (simp add: unsubscribe_def pool_query_def deactivate_def Let_def)
  have k: "\<forall>r\<in>set ?rows. email r = e \<longrightarrow> \<not> is_active r"
  proof (intro ballI impI)
    fix r assume "r \<in> set ?rows" and re: "email r = e"
    then obtain y where y: "y \<in> set (rows tbl)" "r = ?f y" by (auto simp only: set_map)
    show "\<not> is_active r" using y(2) re by (cases "email y = e") simp_all
  qed
  have o: "\<forall>r\<in>set ?rows. email r \<noteq> e \<longrightarrow> r \<in> set (rows tbl)"
  proof (intro ballI impI)
    fix r assume "r \<in> set ?rows" and re: "email r \<noteq> e"
    then obtain y where y: "y \<in> set (rows tbl)" "r = ?f y" by (auto simp only: set_map)
    show "r \<in> set (rows tbl)" using y re by (cases "email y = e") simp_all
  qed
  show "\<exists>tbl'. unsubscribe None e tbl
                 = (Inr \<lparr>unsubscribe_result.success = True,
                         message = ''Successfully unsubscribed from newsletter''\<rparr>, tbl')
           \<and> map email (rows tbl') = map email (rows tbl)
           \<and> map row_id (rows tbl') = map row_id (rows tbl)
           \<and> map subscribed_at (rows tbl') = map subscribed_at (rows tbl)
           \<and> id_seq tbl' = id_seq tbl
           \<and> (\<forall>r\<in>set (rows tbl'). email r = e \<longrightarrow> \<not> is_active r)
           \<and> (\<forall>r\<in>set (rows tbl'). email r \<noteq> e \<longrightarrow> r \<in> set (rows tbl))"
  proof -
    have sel: "rows (tbl\<lparr>rows := ?rows\<rparr>) = ?rows" by simp
    have sq: "id_seq (tbl\<lparr>rows := ?rows\<rparr>) = id_seq tbl" by simp
    show ?thesis
      using u k o deactivate_emails [of e "rows tbl"]
      by (intro exI [of _ "tbl\<lparr>rows := ?rows\<rparr>"]) (simp only: sel sq simp_thms)
  qed
qed

theorem unsubscribe_cases_witness:
  "unsubscribe None ''bob@example.com''
      \<lparr>rows = [\<lparr>row_id = 1, email = ''ana@example.com'', subscribed_at = 10, is_active = True\<rparr>],
       id_seq = 2\<rparr>
     = (Inl (Error ''Email not found in subscription list''),
        \<lparr>rows = [\<lparr>row_id = 1, email = ''ana@example.com'', subscribed_at = 10, is_active = True\<rparr>],
         id_seq = 2\<rparr>)
   \<and> fst (unsubscribe None ''ana@example.com''
      \<lparr>rows = [\<lparr>row_id = 1, email = ''ana@example.com'', subscribed_at = 10, is_active = True\<rparr>],
       id_seq = 2\<rparr>)
     = Inr \<lparr>unsubscribe_result.success = True, message = ''Successfully unsubscribed from newsletter''\<rparr>
   \<and> map email (rows (snd (unsubscribe None ''ana@example.com''
      \<lparr>rows = [\<lparr>row_id = 1, email = ''ana@example.com'', subscribed_at = 10, is_active = True\<rparr>],
       id_seq = 2\<rparr>))) = [''ana@example.com'']
   \<and> fst (unsubscribe None [CHR 0x00]
      \<lparr>rows = [\<lparr>row_id = 1, email = ''ana@example.com'', subscribed_at = 10, is_active = True\<rparr>],
       id_seq = 2\<rparr>) = Inl invalid_byte_sequence"
proof -
  let ?tbl = "\<lparr>rows = [\<lparr>row_id = 1, email = ''ana@example.com'', subscribed_at = 10, is_active = True\<rparr>],
       id_seq = 2\<rparr>"
  have a: "''bob@example.com'' \<notin> email ` set (rows ?tbl)" by simp
  have b: "''ana@example.com'' \<in> email ` set (rows ?tbl)" by simp
  have na: "CHR 0x00 \<notin> set ''ana@example.com''" by simp
  have nb: "CHR 0x00 \<notin> set ''bob@example.com''" by simp
  have nz: "CHR 0x00 \<in> set [CHR 0x00]" by simp
  have "unsubscribe None ''bob@example.com'' ?tbl
          = (Inl (Error ''Email not found in subscription list''), ?tbl)"
    using unsubscribe_cases [of "''bob@example.com''" ?tbl, THEN conjunct2, THEN conjunct1,
        rule_format, OF nb a] .
  moreover obtain tbl' where
    "unsubscribe None ''ana@example.com'' ?tbl
       = (Inr \<lparr>unsubscribe_result.success = True,
               message = ''Successfully unsubscribed from newsletter''\<rparr>, tbl')"
    and "map email (rows tbl') = map email (rows ?tbl)"
    using unsubscribe_cases [of "''ana@example.com''" ?tbl, THEN conjunct2, THEN conjunct2,
        rule_format, OF na b] by blast
  moreover have "unsubscribe None [CHR 0x00] ?tbl = (Inl invalid_byte_sequence, ?tbl)"
    using unsubscribe_cases [of "[CHR 0x00]" ?tbl, THEN conjunct1, rule_format, OF nz] .
  ultimately show ?thesis by simp
qed

end
